theory Spec2Isabelle
  imports Complex_Main
begin

section \<open>Arrays\<close>

text \<open>
  The notebooks compute with two-dimensional numpy arrays of complex numbers. An array is
  modelled as the list of its rows. Arithmetic is exact arithmetic on \<open>real\<close> and
  \<open>complex\<close>; rounding of the machine floats is outside the model.
\<close>

type_synonym cmatrix = "complex list list"







definition emul :: "cmatrix \<Rightarrow> cmatrix \<Rightarrow> cmatrix" where
  "emul A B = map2 (map2 (*)) A B"


text \<open>The transpose, the matrix product \<^verbatim>\<open>A @ B\<close>, \<^verbatim>\<open>np.sum\<close> and the trace.\<close>

definition mtranspose :: "cmatrix \<Rightarrow> cmatrix" where
  "mtranspose A =
     (case A of [] \<Rightarrow> [] | r # _ \<Rightarrow> map (\<lambda>j. map (\<lambda>row. row ! j) A) [0..<length r])"

definition matmul :: "cmatrix \<Rightarrow> cmatrix \<Rightarrow> cmatrix" where
  "matmul A B = map (\<lambda>r. map (\<lambda>c. sum_list (map2 (*) r c)) (mtranspose B)) A"

definition np_sum :: "cmatrix \<Rightarrow> complex" where
  "np_sum A = sum_list (map sum_list A)"

definition mtrace :: "cmatrix \<Rightarrow> complex" where
  "mtrace A = sum_list (map (\<lambda>i. A ! i ! i) [0..<length A])"

section \<open>Gradient optimization of a pulse sequence\<close>

subsection \<open>Gate fidelity\<close>

text \<open>\<^verbatim>\<open>X_op = Array(Operator.from_label('X'))\<close>: the Pauli X operator.\<close>

definition X_op :: cmatrix where
  "X_op = [[0, 1], [1, 0]]"

text \<open>
  \<^verbatim>\<open>
  def fidelity(U):
      U = Array(U)
      return np.abs(np.sum(X_op * U))**2 / 4.
  \<close>
\<close>

definition fidelity :: "cmatrix \<Rightarrow> real" where
  "fidelity U = (cmod (np_sum (emul X_op U)))\<^sup>2 / 4"

text \<open>The reference formula of the notebook: \<open>f(U) = |Tr(X U)|\<^sup>2 / 4\<close>.\<close>

definition fidelity_trace :: "cmatrix \<Rightarrow> real" where
  "fidelity_trace U = (cmod (mtrace (matmul X_op U)))\<^sup>2 / 4"

subsection \<open>The pulse parameterization\<close>

text \<open>\<^verbatim>\<open>v = 5.\<close>: the qubit frequency.\<close>

definition v :: real where "v = 5"

text \<open>
  A \<open>DiscreteSignal\<close> of the library: the sample width, the envelope samples and the
  carrier frequency (0 unless set).
\<close>

record discrete_signal =
  dt :: real
  samples :: "complex list"
  carrier_freq :: real

definition DiscreteSignal :: "real \<Rightarrow> complex list \<Rightarrow> discrete_signal" where
  "DiscreteSignal d xs = \<lparr>dt = d, samples = xs, carrier_freq = 0\<rparr>"

text \<open>
  \<^verbatim>\<open>
  def gaus(t):
      sigma = 15
      _dt = 0.1
      return 2.*_dt/np.sqrt(2.*np.pi*sigma**2)*np.exp(-t**2/(2*sigma**2))
  \<close>
\<close>

definition gaus :: "real \<Rightarrow> real" where
  "gaus t = (let sigma = 15; dt' = 0.1
             in 2 * dt' / sqrt (2 * pi * sigma\<^sup>2) * exp (- t\<^sup>2 / (2 * sigma\<^sup>2)))"

text \<open>
  \<^verbatim>\<open>
  convolution = Convolution(gaus)

  def signal_mapping(params):
      samples = Array(params)
      bounded_samples = np.arctan(samples) / (np.pi / 2)
      padded_samples = np.append(Array([0], dtype=complex), bounded_samples)
      output_signal = convolution(DiscreteSignal(dt=1., samples=padded_samples))
      output_signal.carrier_freq = v
      return output_signal
  \<close>
  \<open>Convolution\<close> is a transfer function of the library. It is a parameter of the model:
  a function from the filter and the input signal to the output signal.
\<close>

type_synonym convolution_fn = "(real \<Rightarrow> real) \<Rightarrow> discrete_signal \<Rightarrow> discrete_signal"

definition bounded_samples :: "real list \<Rightarrow> real list" where
  "bounded_samples params = map (\<lambda>x. arctan x / (pi / 2)) params"

definition padded_samples :: "real list \<Rightarrow> complex list" where
  "padded_samples params = [0] @ map complex_of_real (bounded_samples params)"

definition signal_mapping :: "convolution_fn \<Rightarrow> real list \<Rightarrow> discrete_signal" where
  "signal_mapping Convolution params =
     (let output_signal = Convolution gaus (DiscreteSignal 1 (padded_samples params))
      in output_signal\<lparr>carrier_freq := v\<rparr>)"

section \<open>Simulating backends at the pulse level: the model builder\<close>

text \<open>
  \<^verbatim>\<open>
  dim = 3
  v0 = 4.86e9;  anharm0 = -0.32e9;  r0 = 0.22e9
  v1 = 4.97e9;  anharm1 = -0.32e9;  r1 = 0.26e9
  J = 0.002e9
  \<close>
  The physical parameters are kept in a record, so that the builder is a function of them;
  \<open>almaden\<close> holds the values of the notebook.
\<close>

record transmon_params =
  v0 :: real
  anharm0 :: real
  r0 :: real
  v1 :: real
  anharm1 :: real
  r1 :: real
  J :: real

definition almaden :: transmon_params where
  "almaden = \<lparr>v0 = 4860000000, anharm0 = - 320000000, r0 = 220000000,
              v1 = 4970000000, anharm1 = - 320000000, r1 = 260000000, J = 2000000\<rparr>"



















section \<open>Properties\<close>

text \<open>
  C3. For every 2x2 complex matrix \<open>U\<close>, \<open>fidelity\<close> returns \<open>|Tr(X U)|\<^sup>2 / 4\<close>:
  the elementwise product with \<open>X_op\<close> followed by the sum of all entries is the trace
  of the matrix product of the Pauli X operator with \<open>U\<close>.
\<close>

theorem fidelity_is_trace_formula:
  "fidelity [[u00, u01], [u10, u11]] = (cmod (mtrace (matmul X_op [[u00, u01], [u10, u11]])))\<^sup>2 / 4
   \<and> np_sum (emul X_op [[u00, u01], [u10, u11]]) = mtrace (matmul X_op [[u00, u01], [u10, u11]])
   \<and> fidelity [[u00, u01], [u10, u11]] = fidelity_trace [[u00, u01], [u10, u11]]"
  by (simp add: fidelity_def fidelity_trace_def np_sum_def emul_def mtrace_def matmul_def
      mtranspose_def X_op_def upt_rec add.commute)

subsection \<open>The pulse parameterization\<close>

lemma bounded_samples_range:
  "x \<in> set (bounded_samples params) \<Longrightarrow> - 1 \<le> x \<and> x \<le> 1"
proof -
  assume "x \<in> set (bounded_samples params)"
  then obtain y where x: "x = arctan y / (pi / 2)"
    by (auto simp: bounded_samples_def)
  have lo: "- (pi / 2) < arctan y" and hi: "arctan y < pi / 2"
    by (rule arctan_lbound, rule arctan_ubound)
  have pos: "0 < pi / 2" by simp
  from lo pos have "- 1 \<le> arctan y / (pi / 2)"
    by (simp add: pos_le_divide_eq)
  moreover from hi pos have "arctan y / (pi / 2) \<le> 1"
    by (simp add: pos_divide_le_eq)
  ultimately show ?thesis using x by simp
qed

text \<open>
  C7. For every list of real parameters, \<open>signal_mapping\<close> returns a signal: the
  normalized samples, \<open>arctan x / (\<pi> / 2)\<close> of each parameter, lie in \<open>[-1, 1]\<close>; the
  padded samples handed to the convolution are the normalized ones behind a leading \<open>0\<close>;
  and the carrier frequency of the result is the qubit frequency \<open>v\<close>, whatever the
  convolution returns.
\<close>

theorem signal_mapping_bounded:
  "(\<forall>x \<in> set (bounded_samples params). - 1 \<le> x \<and> x \<le> 1)
   \<and> bounded_samples params = map (\<lambda>x. arctan x / (pi / 2)) params
   \<and> padded_samples params = 0 # map complex_of_real (bounded_samples params)
   \<and> hd (padded_samples params) = 0
   \<and> signal_mapping Convolution params =
       (Convolution gaus (DiscreteSignal 1 (padded_samples params)))\<lparr>carrier_freq := v\<rparr>
   \<and> carrier_freq (signal_mapping Convolution params) = v"
  using bounded_samples_range [of _ params]
  by (simp add: bounded_samples_def padded_samples_def signal_mapping_def)

theorem signal_mapping_bounded_witness:
  "bounded_samples [0, 1] = [0, 1 / 2]
   \<and> - 1 \<le> bounded_samples [0, 1] ! 1 \<and> bounded_samples [0, 1] ! 1 \<le> 1
   \<and> padded_samples [0, 1] = [0, 0, 1 / 2]
   \<and> carrier_freq (signal_mapping (\<lambda>f s. s) [0, 1]) = 5"
  using signal_mapping_bounded [of "[0, 1]" "\<lambda>f s. s"]
  by (simp add: bounded_samples_def arctan_one v_def)

subsection \<open>The model builder\<close>















end
